theory Spec2Isabelle
  imports Main "HOL-Library.Word"
begin

section \<open>JavaScript values\<close>

text \<open>
  The library is TypeScript running on a JavaScript engine. Values that cross its
  interfaces as \<^verbatim>\<open>unknown\<close> (cache data, key data, rejection reasons, payloads) are
  modelled by \<open>jsval\<close>. Objects, arrays and \<^verbatim>\<open>Error\<close> instances carry the address
  they live at, so that \<^verbatim>\<open>===\<close> on them is the comparison of addresses the engine
  makes, while their contents are read from the value itself.
  Numbers are the integers from \<open>- 2 ^ 53\<close> to \<open>2 ^ 53 - 1\<close>, \<open>JNum w\<close> being the
  number \<open>sint w\<close>: each of them is a double, and the engine prints it by its decimal
  digits. Strings are lists of 8-bit characters (code units up to 255), so the line
  terminators that the regular expression dot excludes are line feed and carriage
  return.
\<close>

type_synonym ref = nat

datatype jsval =
    JUndefined
  | JNull
  | JBool bool
  | JNum "54 word"
  | JStr string
  | JArr ref "jsval list"
  | JObj ref "(string \<times> jsval) list"
  | JErr ref string string  \<comment> \<open>an \<^verbatim>\<open>Error\<close> instance: address, name, message\<close>

definition dquote :: char where
  "dquote = CHR 0x22"

definition backslash :: char where
  "backslash = CHR 0x5C"

fun truthy :: "jsval \<Rightarrow> bool" where
  "truthy JUndefined = False"
| "truthy JNull = False"
| "truthy (JBool b) = b"
| "truthy (JNum n) = (n \<noteq> 0)"
| "truthy (JStr s) = (s \<noteq> [])"
| "truthy (JArr r xs) = True"
| "truthy (JObj r ps) = True"
| "truthy (JErr r n m) = True"

fun typeof :: "jsval \<Rightarrow> string" where
  "typeof JUndefined = ''undefined''"
| "typeof JNull = ''object''"
| "typeof (JBool b) = ''boolean''"
| "typeof (JNum n) = ''number''"
| "typeof (JStr s) = ''string''"
| "typeof (JArr r xs) = ''object''"
| "typeof (JObj r ps) = ''object''"
| "typeof (JErr r n m) = ''object''"

text \<open>\<^verbatim>\<open>a === b\<close>: primitives by value, objects by address.\<close>

fun strictEquals :: "jsval \<Rightarrow> jsval \<Rightarrow> bool" where
  "strictEquals JUndefined JUndefined = True"
| "strictEquals JNull JNull = True"
| "strictEquals (JBool a) (JBool b) = (a = b)"
| "strictEquals (JNum a) (JNum b) = (a = b)"
| "strictEquals (JStr a) (JStr b) = (a = b)"
| "strictEquals (JArr r xs) (JArr r' ys) = (r = r')"
| "strictEquals (JObj r ps) (JObj r' qs) = (r = r')"
| "strictEquals (JErr r n m) (JErr r' n' m') = (r = r')"
| "strictEquals a b = False"

text \<open>\<^verbatim>\<open>a == null\<close> holds of \<^verbatim>\<open>null\<close> and \<^verbatim>\<open>undefined\<close> only.\<close>

fun nullish :: "jsval \<Rightarrow> bool" where
  "nullish JUndefined = True"
| "nullish JNull = True"
| "nullish v = False"

text \<open>
  Property read \<^verbatim>\<open>v.p\<close> on a value that is not nullish; a missing property reads
  as \<^verbatim>\<open>undefined\<close>.
\<close>

fun getProp :: "jsval \<Rightarrow> string \<Rightarrow> jsval" where
  "getProp (JObj r ps) p = (case map_of ps p of Some v \<Rightarrow> v | None \<Rightarrow> JUndefined)"
| "getProp (JErr r n m) p =
     (if p = ''name'' then JStr n else if p = ''message'' then JStr m else JUndefined)"
| "getProp v p = JUndefined"

text \<open>Optional chaining \<^verbatim>\<open>v?.p\<close>.\<close>

definition optProp :: "jsval \<Rightarrow> string \<Rightarrow> jsval" where
  "optProp v p = (if nullish v then JUndefined else getProp v p)"

fun digitsOf :: "nat \<Rightarrow> string" where
  "digitsOf n =
     (if n < 10 then [char_of (48 + n)]
      else digitsOf (n div 10) @ [char_of (48 + n mod 10)])"

declare digitsOf.simps [simp del]

definition decimal :: "int \<Rightarrow> string" where
  "decimal i = (if i < 0 then CHR ''-'' # digitsOf (nat (- i)) else digitsOf (nat i))"

fun joinWith :: "string \<Rightarrow> string list \<Rightarrow> string" where
  "joinWith sep [] = []"
| "joinWith sep [x] = x"
| "joinWith sep (x # y # ys) = x @ sep @ joinWith sep (y # ys)"

text \<open>\<^verbatim>\<open>String(v)\<close>, which is also what a template literal applies to a substitution.\<close>

fun js_String :: "jsval \<Rightarrow> string" where
  "js_String JUndefined = ''undefined''"
| "js_String JNull = ''null''"
| "js_String (JBool b) = (if b then ''true'' else ''false'')"
| "js_String (JNum n) = decimal (sint n)"
| "js_String (JStr s) = s"
| "js_String (JArr r xs) =
     joinWith '','' (map (\<lambda>x. if nullish x then [] else js_String x) xs)"
| "js_String (JObj r ps) = ''[object Object]''"
| "js_String (JErr r n m) =
     (if n = [] then m else if m = [] then n else n @ '': '' @ m)"

section \<open>Structured keys and mutation errors\<close>

text \<open>
  \<^verbatim>\<open>SWRKey<T> = { id: string; group?: string; data: T } | null\<close>: the record is the
  object, \<open>None\<close> the \<^verbatim>\<open>null\<close> key.
\<close>

record swrkey =
  key_id :: string
  key_group :: "string option"
  key_data :: jsval

datatype MutationOperation = Create | Update | Delete

fun operationName :: "MutationOperation \<Rightarrow> string" where
  "operationName Create = ''create''"
| "operationName Update = ''update''"
| "operationName Delete = ''delete''"

record MutationErrorContext =
  ctx_operation :: MutationOperation
  ctx_key :: "swrkey option"
  ctx_data :: "jsval option"
  ctx_id :: "jsval option"
  ctx_timestamp :: int

record MutationError =
  err_name :: string
  err_message :: string
  err_context :: MutationErrorContext
  err_originalError :: jsval

text \<open>The constructor of \<^verbatim>\<open>class MutationError extends Error\<close>.\<close>

definition new_MutationError ::
  "string \<Rightarrow> MutationErrorContext \<Rightarrow> jsval \<Rightarrow> MutationError" where
  "new_MutationError message context originalError =
     \<lparr>err_name = ''MutationError'', err_message = message,
      err_context = context, err_originalError = originalError\<rparr>"

text \<open>
  What a rejected promise or a \<^verbatim>\<open>throw\<close> delivers: a raw value, a \<^verbatim>\<open>TypeError\<close>
  raised by the engine, or a \<^verbatim>\<open>MutationError\<close> built by this library.
\<close>

datatype thrown =
    Raw jsval
  | EngineTypeError string
  | Wrapped MutationError

text \<open>
  \<^verbatim>\<open>MutationError.getUserMessage\<close>:
  \<^verbatim>\<open>const resource = key?.id || "resource"\<close>, then the verb is looked up in
  \<^verbatim>\<open>{ create: "add", update: "update", delete: "delete" }\<close>.
\<close>

definition getUserMessage :: "MutationError \<Rightarrow> string" where
  "getUserMessage this =
     (let operation = ctx_operation (err_context this);
          key = ctx_key (err_context this);
          resource = (case key of
                        None \<Rightarrow> ''resource''
                      | Some k \<Rightarrow> if key_id k \<noteq> [] then key_id k else ''resource'');
          operationText = (case operation of
                             Create \<Rightarrow> ''add''
                           | Update \<Rightarrow> ''update''
                           | Delete \<Rightarrow> ''delete'')
      in ''Failed to '' @ operationText @ '' '' @ resource @ ''. Please try again.'')"

text \<open>
  The message as the specification words it, with the nullish fallback
  \<^verbatim>\<open>context.key.id ?? "resource"\<close>: only a missing key gives \<^verbatim>\<open>"resource"\<close>.
\<close>

fun spec_userVerb :: "MutationOperation \<Rightarrow> string" where
  "spec_userVerb Create = ''add''"
| "spec_userVerb Update = ''update''"
| "spec_userVerb Delete = ''delete''"

definition spec_getUserMessage :: "MutationError \<Rightarrow> string" where
  "spec_getUserMessage e =
     ''Failed to '' @ spec_userVerb (ctx_operation (err_context e)) @ '' ''
       @ (case ctx_key (err_context e) of None \<Rightarrow> ''resource'' | Some k \<Rightarrow> key_id k)
       @ ''. Please try again.''"

section \<open>The helper \<^verbatim>\<open>to\<close>\<close>

text \<open>
  A promise is pending, fulfilled with a value, or rejected with a reason.
  \<^verbatim>\<open>to\<close> awaits its argument inside \<^verbatim>\<open>try\<close>/\<^verbatim>\<open>catch\<close> and returns a two-element
  array; while the argument is pending, so is the result.
\<close>

datatype 'a promise = Pending | Fulfilled 'a | Rejected jsval

fun to :: "jsval promise \<Rightarrow> (jsval \<times> jsval) promise" where
  "to Pending = Pending"
| "to (Fulfilled data) = Fulfilled (data, JNull)"
| "to (Rejected error) = Fulfilled (JNull, error)"

section \<open>Decoding cache keys\<close>

text \<open>
  The three regular expressions have the shape \<^verbatim>\<open>/<opening>"((?:[^"\\]|\\.)*)"/\<close>,
  the opening being \<^verbatim>\<open>#id:\<close>, \<^verbatim>\<open>group:\<close> or \<^verbatim>\<open>data:\<close>. After the opening quote the
  two alternatives of the group exclude each other on the first character (a character
  that is neither a quote nor a backslash, or a backslash with a character after it
  that is not a line terminator), so the greedy repetition has one way to advance and
  stops before a quote, before a backslash it cannot pair, or at the end of the input.
  Backtracking to a shorter repetition ends before a character the group has consumed,
  never before a quote, so the attempt at a position succeeds exactly when the
  repetition stopped before a quote. \<open>quotedSegment\<close> is that scan, returning capture
  group 1; \<open>js_match\<close> tries each position from the left, as
  \<^verbatim>\<open>String.prototype.match\<close> does.
\<close>

definition lineTerminator :: "char \<Rightarrow> bool" where
  "lineTerminator c = (c = CHR 0x0A \<or> c = CHR 0x0D)"

fun startsWith :: "string \<Rightarrow> string \<Rightarrow> bool" where
  "startsWith s [] = True"
| "startsWith [] (p # ps) = False"
| "startsWith (c # cs) (p # ps) = (c = p \<and> startsWith cs ps)"

fun quotedSegment :: "string \<Rightarrow> string option" where
  "quotedSegment [] = None"
| "quotedSegment (c # cs) =
     (if c = dquote then Some []
      else if c = backslash then
        (case cs of
           [] \<Rightarrow> None
         | d # ds \<Rightarrow>
             if lineTerminator d then None
             else map_option (\<lambda>rest. c # d # rest) (quotedSegment ds))
      else map_option (\<lambda>rest. c # rest) (quotedSegment cs))"

definition matchHere :: "string \<Rightarrow> string \<Rightarrow> string option" where
  "matchHere opening s =
     (if startsWith s opening then quotedSegment (drop (length opening) s) else None)"

fun js_match :: "string \<Rightarrow> string \<Rightarrow> string option" where
  "js_match opening [] = matchHere opening []"
| "js_match opening (c # cs) =
     (case matchHere opening (c # cs) of
        Some captured \<Rightarrow> Some captured
      | None \<Rightarrow> js_match opening cs)"

definition ID_PATTERN :: string where
  "ID_PATTERN = ''#id:'' @ [dquote]"

definition GROUP_PATTERN :: string where
  "GROUP_PATTERN = ''group:'' @ [dquote]"

definition DATA_PATTERN :: string where
  "DATA_PATTERN = ''data:'' @ [dquote]"

text \<open>
  \<^verbatim>\<open>str.replace(/\\(.)/g, "$1")\<close>: from the left, a backslash followed by a character
  that is not a line terminator is replaced by that character.
\<close>

fun unescapeString :: "string \<Rightarrow> string" where
  "unescapeString [] = []"
| "unescapeString [c] = [c]"
| "unescapeString (c # d # ds) =
     (if c = backslash \<and> \<not> lineTerminator d then d # unescapeString ds
      else c # unescapeString (d # ds))"

text \<open>
  \<^verbatim>\<open>tryCurrentFormat\<close> returns \<^verbatim>\<open>null\<close> (\<open>None\<close>) or a new object; \<open>r\<close> is the address
  the engine allocates that object at. \<open>js_match p key\<close> is \<^verbatim>\<open>key.match(p)\<close>, reduced to
  the capture \<^verbatim>\<open>[1]\<close> of the match.
\<close>

definition tryCurrentFormat :: "ref \<Rightarrow> string \<Rightarrow> jsval option" where
  "tryCurrentFormat r key =
     (if \<not> startsWith key ''#id:'' then None
      else case js_match ID_PATTERN key of
        None \<Rightarrow> None
      | Some idMatch \<Rightarrow>
          (let groupMatch = js_match GROUP_PATTERN key;
               dataMatch = js_match DATA_PATTERN key
           in Some (JObj r
                [(''id'', JStr (unescapeString idMatch)),
                 (''group'', case groupMatch of
                               Some g \<Rightarrow> JStr (unescapeString g)
                             | None \<Rightarrow> JUndefined),
                 (''data'', case dataMatch of
                              Some d \<Rightarrow> JStr (unescapeString d)
                            | None \<Rightarrow> JUndefined)])))"

text \<open>
  The expression \<^verbatim>\<open>"id" in v\<close>: on an object, whether it has the property (arrays and
  errors have none of that name); on anything else the engine throws a
  \<^verbatim>\<open>TypeError\<close>.
\<close>

fun in_id :: "jsval \<Rightarrow> thrown + bool" where
  "in_id (JObj r ps) = Inr (''id'' \<in> fst ` set ps)"
| "in_id (JArr r xs) = Inr False"
| "in_id (JErr r n m) = Inr False"
| "in_id v = Inl (EngineTypeError ''right-hand side of in is not an object'')"

text \<open>
  \<^verbatim>\<open>JSON.parse\<close> is the engine's and a parameter: it returns the parsed value or
  throws. \<^verbatim>\<open>tryJSONFormat\<close> runs it, and the test of the result, inside
  \<^verbatim>\<open>try\<close>/\<^verbatim>\<open>catch\<close>.
\<close>

definition tryJSONFormat :: "(string \<Rightarrow> thrown + jsval) \<Rightarrow> string \<Rightarrow> jsval option" where
  "tryJSONFormat JSON_parse key =
     (case JSON_parse key of
        Inl e \<Rightarrow> None
      | Inr parsed \<Rightarrow>
          if truthy parsed \<and> typeof parsed = ''object'' then
            (case in_id parsed of
               Inl e \<Rightarrow> None
             | Inr b \<Rightarrow> if b then Some parsed else None)
          else None)"

text \<open>
  \<^verbatim>\<open>extractSWRKey\<close>: \<open>Inl\<close> would be an exception leaving the function, \<open>Inr None\<close> is
  the result \<^verbatim>\<open>null\<close>. The first test short-circuits, so \<^verbatim>\<open>in\<close> is evaluated on
  non-null objects only.
\<close>

definition extractSWRKey ::
  "(string \<Rightarrow> thrown + jsval) \<Rightarrow> ref \<Rightarrow> jsval \<Rightarrow> thrown + jsval option" where
  "extractSWRKey JSON_parse r cacheKey =
     (case (if typeof cacheKey = ''object'' \<and> \<not> strictEquals cacheKey JNull
            then in_id cacheKey else Inr False) of
        Inl e \<Rightarrow> Inl e
      | Inr isKey \<Rightarrow>
          if isKey then Inr (Some cacheKey)
          else if typeof cacheKey \<noteq> ''string'' then Inr None
          else (case cacheKey of
                  JStr s \<Rightarrow>
                    (case tryCurrentFormat r s of
                       Some currentFormat \<Rightarrow> Inr (Some currentFormat)
                     | None \<Rightarrow>
                         (case tryJSONFormat JSON_parse s of
                            Some jsonFormat \<Rightarrow> Inr (Some jsonFormat)
                          | None \<Rightarrow> Inr None))
                | _ \<Rightarrow> Inr None))"

section \<open>The legacy serialized form, as the specification describes it\<close>

text \<open>
  The marker \<^verbatim>\<open>#id:"<id>"\<close> followed by the segments \<^verbatim>\<open>group:"<group>"\<close> and
  \<^verbatim>\<open>data:"<data>"\<close> when the key has them, separated by commas as in the test
  \<^verbatim>\<open>'#id:"user-1",group:"users",data:"some-data"'\<close>.
\<close>

definition alnum :: "char \<Rightarrow> bool" where
  "alnum c = (let n = (of_char c :: nat) in
     (48 \<le> n \<and> n \<le> 57) \<or> (65 \<le> n \<and> n \<le> 90) \<or> (97 \<le> n \<and> n \<le> 122))"

definition spec_encodeLegacy :: "string \<Rightarrow> string option \<Rightarrow> string option \<Rightarrow> string" where
  "spec_encodeLegacy i g d =
     ''#id:'' @ [dquote] @ i @ [dquote]
     @ (case g of None \<Rightarrow> [] | Some gs \<Rightarrow> '',group:'' @ [dquote] @ gs @ [dquote])
     @ (case d of None \<Rightarrow> [] | Some ds \<Rightarrow> '',data:'' @ [dquote] @ ds @ [dquote])"

section \<open>Stable keys\<close>

text \<open>
  \<^verbatim>\<open>deepEqual\<close> of the hook \<^verbatim>\<open>useStableKey\<close>. \<^verbatim>\<open>JSON.stringify\<close> is the engine's: it
  returns a string or \<^verbatim>\<open>undefined\<close>, or throws (on a cyclic structure, for one), and
  is a parameter here, so that the \<^verbatim>\<open>catch\<close> branch is part of the model; what the
  engine computes on the values of this theory is \<open>js_JSON_stringify\<close>, defined in the
  next section.
\<close>

definition deepEqual :: "(jsval \<Rightarrow> thrown + jsval) \<Rightarrow> jsval \<Rightarrow> jsval \<Rightarrow> bool" where
  "deepEqual JSON_stringify a b =
     (if strictEquals a b then True
      else if nullish a \<or> nullish b then strictEquals a b
      else if typeof a \<noteq> ''object'' \<or> typeof b \<noteq> ''object'' then False
      else (case JSON_stringify a of
              Inl e \<Rightarrow> False
            | Inr sa \<Rightarrow>
                (case JSON_stringify b of
                   Inl e \<Rightarrow> False
                 | Inr sb \<Rightarrow> strictEquals sa sb)))"

text \<open>
  \<^verbatim>\<open>useStableKey\<close> keeps the last key it returned in \<^verbatim>\<open>stableKeyRef.current\<close>. The
  stored key is an object of its own, built by the hook: it is modelled with the
  address it was allocated at. \<open>fresh\<close> is the address the engine gives to the object
  literal \<^verbatim>\<open>{ id, group, data }\<close> when the hook evaluates it. The function returns the
  new content of \<^verbatim>\<open>stableKeyRef.current\<close>, which is also what the hook returns.
\<close>

definition useStableKey ::
  "(jsval \<Rightarrow> thrown + jsval) \<Rightarrow> ref \<Rightarrow> swrkey option \<Rightarrow> (ref \<times> swrkey) option
   \<Rightarrow> (ref \<times> swrkey) option" where
  "useStableKey JSON_stringify fresh key current =
     (case key of
        None \<Rightarrow> None
      | Some k \<Rightarrow>
          (let id = key_id k; group = key_group k; data = key_data k
           in if \<not> (id \<noteq> [] \<and> truthy data) then None
              else (case current of
                      None \<Rightarrow>
                        Some (fresh, \<lparr>key_id = id, key_group = group, key_data = data\<rparr>)
                    | Some currentKey \<Rightarrow>
                        if key_id (snd currentKey) \<noteq> id
                           \<or> key_group (snd currentKey) \<noteq> group
                           \<or> \<not> deepEqual JSON_stringify (key_data (snd currentKey)) data
                        then Some (fresh, \<lparr>key_id = id, key_group = group, key_data = data\<rparr>)
                        else Some currentKey)))"

section \<open>JSON text and deep equality\<close>

text \<open>
  \<^verbatim>\<open>JSON.stringify\<close> as the engine computes it on the values modelled here. A string
  is quoted, with the quote, the backslash and the control characters escaped; an
  array prints \<^verbatim>\<open>null\<close> for an \<^verbatim>\<open>undefined\<close> element; an object prints its properties
  in the order it enumerates them, which is the order of the list, and leaves out
  those whose value is \<^verbatim>\<open>undefined\<close>; an \<^verbatim>\<open>Error\<close> has no enumerable property and
  prints \<^verbatim>\<open>{}\<close>; \<^verbatim>\<open>undefined\<close> itself gives \<^verbatim>\<open>undefined\<close>. None of these values makes
  it throw.
\<close>

definition hexDigit :: "nat \<Rightarrow> char" where
  "hexDigit n = (if n < 10 then char_of (48 + n) else char_of (87 + n))"

definition jsonEscape :: "char \<Rightarrow> string" where
  "jsonEscape c =
     (if c = dquote then [backslash, dquote]
      else if c = backslash then [backslash, backslash]
      else if c = CHR 0x08 then [backslash, CHR ''b'']
      else if c = CHR 0x0C then [backslash, CHR ''f'']
      else if c = CHR 0x0A then [backslash, CHR ''n'']
      else if c = CHR 0x0D then [backslash, CHR ''r'']
      else if c = CHR 0x09 then [backslash, CHR ''t'']
      else if (of_char c :: nat) < 32
        then [backslash, CHR ''u'', CHR ''0'', CHR ''0'',
              hexDigit ((of_char c :: nat) div 16), hexDigit ((of_char c :: nat) mod 16)]
      else [c])"

definition jsonQuote :: "string \<Rightarrow> string" where
  "jsonQuote s = [dquote] @ concat (map jsonEscape s) @ [dquote]"

fun jsonText :: "jsval \<Rightarrow> string option" where
  "jsonText JUndefined = None"
| "jsonText JNull = Some ''null''"
| "jsonText (JBool b) = Some (if b then ''true'' else ''false'')"
| "jsonText (JNum n) = Some (decimal (sint n))"
| "jsonText (JStr s) = Some (jsonQuote s)"
| "jsonText (JArr r xs) =
     Some (''['' @ joinWith '',''
             (map (\<lambda>x. case jsonText x of None \<Rightarrow> ''null'' | Some t \<Rightarrow> t) xs) @ '']'')"
| "jsonText (JObj r ps) =
     Some (''{'' @ joinWith '',''
             (concat (map (\<lambda>p. case jsonText (snd p) of
                                  None \<Rightarrow> []
                                | Some t \<Rightarrow> [jsonQuote (fst p) @ '':'' @ t]) ps)) @ ''}'')"
| "jsonText (JErr r n m) = Some ''{}''"

definition js_JSON_stringify :: "jsval \<Rightarrow> thrown + jsval" where
  "js_JSON_stringify v = Inr (case jsonText v of None \<Rightarrow> JUndefined | Some t \<Rightarrow> JStr t)"

text \<open>
  Deep equality as the specification defines it: reference equality short-circuits
  to true; \<^verbatim>\<open>null\<close> and \<^verbatim>\<open>undefined\<close> are compared by strict equality; non-objects
  are compared by strict equality; objects are compared by the equality of their
  canonical serialization. The canonical serialization is the JSON text of the value
  with the properties of every object sorted by name (\<open>keyLess\<close> compares names by
  code units).
\<close>

fun keyLess :: "string \<Rightarrow> string \<Rightarrow> bool" where
  "keyLess [] [] = False"
| "keyLess [] (d # ds) = True"
| "keyLess (c # cs) [] = False"
| "keyLess (c # cs) (d # ds) =
     ((of_char c :: nat) < of_char d \<or> (c = d \<and> keyLess cs ds))"

fun insertProp :: "string \<times> jsval \<Rightarrow> (string \<times> jsval) list \<Rightarrow> (string \<times> jsval) list" where
  "insertProp p [] = [p]"
| "insertProp p (q # qs) = (if keyLess (fst q) (fst p) then q # insertProp p qs else p # q # qs)"

fun sortProps :: "(string \<times> jsval) list \<Rightarrow> (string \<times> jsval) list" where
  "sortProps [] = []"
| "sortProps (p # ps) = insertProp p (sortProps ps)"

fun spec_canonical :: "jsval \<Rightarrow> jsval" where
  "spec_canonical (JArr r xs) = JArr r (map spec_canonical xs)"
| "spec_canonical (JObj r ps) = JObj r (sortProps (map (\<lambda>p. (fst p, spec_canonical (snd p))) ps))"
| "spec_canonical v = v"

definition spec_deepEqual :: "jsval \<Rightarrow> jsval \<Rightarrow> bool" where
  "spec_deepEqual a b =
     (if strictEquals a b then True
      else if nullish a \<or> nullish b then strictEquals a b
      else if typeof a \<noteq> ''object'' \<or> typeof b \<noteq> ''object'' then False
      else jsonText (spec_canonical a) = jsonText (spec_canonical b))"

text \<open>
  The comparison by JSON text with the properties in the order they are listed:
  strictly equal values, or two non-null objects whose \<^verbatim>\<open>JSON.stringify\<close> texts are
  the same.
\<close>

definition spec_jsonEqual :: "jsval \<Rightarrow> jsval \<Rightarrow> bool" where
  "spec_jsonEqual a b =
     (strictEquals a b
      \<or> (typeof a = ''object'' \<and> typeof b = ''object'' \<and> a \<noteq> JNull \<and> b \<noteq> JNull
          \<and> jsonText a = jsonText b))"

section \<open>Batch operations on the cache\<close>

text \<open>
  \<^verbatim>\<open>mutateById\<close>, \<^verbatim>\<open>mutateByGroup\<close> and \<^verbatim>\<open>resetCache\<close> call the cache library's global
  \<^verbatim>\<open>mutate(filter, data, options)\<close>. The library is not part of this repository, so
  \<open>mutate\<close> is a parameter: applied to the cache and to the three arguments of the
  call, it gives the reason of its rejection, if it rejects, and the cache afterwards.
  Each function is split in two: \<open>f_call\<close> builds the arguments, \<open>f\<close> makes the call
  inside \<^verbatim>\<open>try\<close>/\<^verbatim>\<open>catch\<close>. \<open>JSON_parse\<close> and \<open>fresh\<close> are what \<open>extractSWRKey\<close>
  needs; \<open>now\<close> is \<^verbatim>\<open>Date.now()\<close>.
\<close>

datatype mutate_data = NoData | Updater "jsval \<Rightarrow> jsval"

datatype mutate_opts = OptsBool bool | OptsObject "(string \<times> jsval) list"

record mutate_call =
  call_filter :: "jsval \<Rightarrow> thrown + bool"
  call_data :: mutate_data
  call_opts :: mutate_opts


datatype string_or_array = Single string | Many "string list"

datatype CacheKeyInput = KeyString string | KeyArray "string list" | KeyNull | KeyUndefined

text \<open>\<^verbatim>\<open>xs.includes(v)\<close> on an array of strings.\<close>

fun js_includes :: "string list \<Rightarrow> jsval \<Rightarrow> bool" where
  "js_includes xs (JStr s) = (s \<in> set xs)"
| "js_includes xs v = False"

text \<open>
  The object literal \<^verbatim>\<open>{ revalidate: x, ...options }\<close>: a property of \<open>options\<close>
  replaces the one of the same name written before it, and is added otherwise.
\<close>

fun setProp :: "(string \<times> jsval) list \<Rightarrow> string \<Rightarrow> jsval \<Rightarrow> (string \<times> jsval) list" where
  "setProp [] p v = [(p, v)]"
| "setProp ((q, w) # ps) p v = (if q = p then (p, v) # ps else (q, w) # setProp ps p v)"

fun spread :: "(string \<times> jsval) list \<Rightarrow> (string \<times> jsval) list \<Rightarrow> (string \<times> jsval) list" where
  "spread base [] = base"
| "spread base ((p, v) # ps) = spread (setProp base p v) ps"

text \<open>\<^verbatim>\<open>error instanceof Error ? error.message : String(error)\<close>.\<close>

definition errorText :: "jsval \<Rightarrow> string" where
  "errorText error = (case error of JErr r n m \<Rightarrow> m | _ \<Rightarrow> js_String error)"

fun ownProps :: "jsval \<Rightarrow> (string \<times> jsval) list" where
  "ownProps (JObj r ps) = ps"
| "ownProps v = []"

text \<open>
  \<^verbatim>\<open>{ revalidate: options?.revalidate ?? !newData, ...options }\<close>, the third argument
  of both \<^verbatim>\<open>mutateById\<close> and \<^verbatim>\<open>mutateByGroup\<close>.
\<close>

definition mutatorOptions :: "jsval \<Rightarrow> jsval \<Rightarrow> (string \<times> jsval) list" where
  "mutatorOptions newData options =
     (let requested = optProp options ''revalidate''
      in spread
           [(''revalidate'', if nullish requested then JBool (\<not> truthy newData) else requested)]
           (ownProps options))"

definition mutateById_call ::
  "(string \<Rightarrow> thrown + jsval) \<Rightarrow> ref \<Rightarrow> string_or_array \<Rightarrow> jsval
   \<Rightarrow> jsval \<Rightarrow> mutate_call" where
  "mutateById_call JSON_parse fresh ids newData options =
     (let idList = (case ids of Single s \<Rightarrow> [s] | Many xs \<Rightarrow> xs)
      in \<lparr>call_filter =
            (\<lambda>cacheKey.
               case extractSWRKey JSON_parse fresh cacheKey of
                 Inl e \<Rightarrow> Inl e
               | Inr extractedKey \<Rightarrow>
                   (case extractedKey of
                      Some k \<Rightarrow> Inr (js_includes idList (optProp k ''id''))
                    | None \<Rightarrow> Inr False)),
          call_data = (if truthy newData then Updater (\<lambda>current. newData) else NoData),
          call_opts = OptsObject (mutatorOptions newData options)\<rparr>)"


definition mutateByGroup_call ::
  "(string \<Rightarrow> thrown + jsval) \<Rightarrow> ref \<Rightarrow> string_or_array \<Rightarrow> jsval
   \<Rightarrow> jsval \<Rightarrow> mutate_call" where
  "mutateByGroup_call JSON_parse fresh groupOrGroups newData options =
     (let groups = (case groupOrGroups of Many xs \<Rightarrow> xs | Single s \<Rightarrow> [s])
      in \<lparr>call_filter =
            (\<lambda>key.
               case extractSWRKey JSON_parse fresh key of
                 Inl e \<Rightarrow> Inl e
               | Inr extracted \<Rightarrow>
                   (case extracted of
                      None \<Rightarrow> Inr False
                    | Some k \<Rightarrow>
                        if truthy (getProp k ''group'')
                        then Inr (js_includes groups (getProp k ''group''))
                        else Inr False)),
          call_data = (if truthy newData then Updater (\<lambda>current. newData) else NoData),
          call_opts = OptsObject (mutatorOptions newData options)\<rparr>)"


text \<open>
  The first lines of \<^verbatim>\<open>resetCache\<close>: the parameter defaults to \<^verbatim>\<open>[]\<close> when it is
  \<^verbatim>\<open>undefined\<close>; an array is taken as it is, a truthy string becomes a one-element
  array, and anything else (\<^verbatim>\<open>null\<close>, the empty string) becomes \<^verbatim>\<open>null\<close>.
\<close>

definition preservedList :: "CacheKeyInput \<Rightarrow> string list option" where
  "preservedList preservedKeys =
     (case preservedKeys of
        KeyUndefined \<Rightarrow> Some []
      | KeyArray xs \<Rightarrow> Some xs
      | KeyString s \<Rightarrow> if s \<noteq> [] then Some [s] else None
      | KeyNull \<Rightarrow> None)"

definition resetCache_call ::
  "(string \<Rightarrow> thrown + jsval) \<Rightarrow> ref \<Rightarrow> CacheKeyInput \<Rightarrow> mutate_call" where
  "resetCache_call JSON_parse fresh preservedKeys =
     (let keys = preservedList preservedKeys
      in \<lparr>call_filter =
            (\<lambda>key.
               case keys of
                 None \<Rightarrow> Inr True
               | Some ks \<Rightarrow>
                   (case extractSWRKey JSON_parse fresh key of
                      Inl e \<Rightarrow> Inl e
                    | Inr extracted \<Rightarrow>
                        (case extracted of
                           Some k \<Rightarrow> Inr (\<not> js_includes ks (getProp k ''id''))
                         | None \<Rightarrow> Inr True))),
          call_data = NoData,
          call_opts = OptsBool False\<rparr>)"


text \<open>
  The entries \<^verbatim>\<open>reset\<close> clears, as the specification words it: every entry except
  those whose decoded \<open>id\<close> is in \<open>preservedIds\<close>; an entry that does not decode is
  cleared.
\<close>

definition spec_preservedIds :: "CacheKeyInput \<Rightarrow> string list" where
  "spec_preservedIds preservedIds =
     (case preservedIds of
        KeyString s \<Rightarrow> [s]
      | KeyArray xs \<Rightarrow> xs
      | KeyNull \<Rightarrow> []
      | KeyUndefined \<Rightarrow> [])"

definition spec_cleared ::
  "(string \<Rightarrow> thrown + jsval) \<Rightarrow> ref \<Rightarrow> CacheKeyInput \<Rightarrow> jsval \<Rightarrow> bool" where
  "spec_cleared JSON_parse fresh preservedIds key =
     (case extractSWRKey JSON_parse fresh key of
        Inr (Some k) \<Rightarrow> \<not> js_includes (spec_preservedIds preservedIds) (getProp k ''id'')
      | _ \<Rightarrow> True)"

section \<open>The mutation hooks\<close>







text \<open>
  \<^verbatim>\<open>createMutationError(operation, stableKey, err, additionalContext?)\<close>, with
  \<^verbatim>\<open>additionalContext?: { data?: unknown; id?: string | number }\<close>; \<open>now\<close> is
  \<^verbatim>\<open>Date.now()\<close>.
\<close>

record additionalContext =
  ac_data :: "jsval option"
  ac_id :: "jsval option"

definition createMutationError ::
  "MutationOperation \<Rightarrow> swrkey option \<Rightarrow> jsval \<Rightarrow> additionalContext option \<Rightarrow> int
   \<Rightarrow> MutationError" where
  "createMutationError operation stableKey err additional now =
     (let resource = (case stableKey of
                        None \<Rightarrow> ''unknown''
                      | Some k \<Rightarrow> if key_id k \<noteq> [] then key_id k else ''unknown'');
          idPart = (case additional of
                      None \<Rightarrow> []
                    | Some ac \<Rightarrow>
                        (case ac_id ac of
                           None \<Rightarrow> []
                         | Some i \<Rightarrow> if truthy i then '' with ID '' @ js_String i else []));
          message = ''Failed to '' @ operationName operation @ '' resource '' @ [dquote]
                      @ resource @ [dquote] @ idPart @ ''. '' @ errorText err
      in new_MutationError message
           \<lparr>ctx_operation = operation, ctx_key = stableKey,
            ctx_data = (case additional of None \<Rightarrow> None | Some ac \<Rightarrow> ac_data ac),
            ctx_id = (case additional of None \<Rightarrow> None | Some ac \<Rightarrow> ac_id ac),
            ctx_timestamp = now\<rparr>
           err)"


record hook_state =
  isMounted :: bool
  isMutating :: bool
  error :: "MutationError option"






section \<open>Properties\<close>

subsection \<open>User messages\<close>

text \<open>
  C7, as stated, fails: with a key whose \<open>id\<close> is the empty string the code falls
  back to \<^verbatim>\<open>"resource"\<close> (the fallback is \<^verbatim>\<open>||\<close>, not \<^verbatim>\<open>??\<close>), where the claim
  expects the empty id to be printed.
\<close>

theorem getUserMessage_empty_id_counterexample:
  "getUserMessage
     (new_MutationError ''m''
        \<lparr>ctx_operation = Create,
         ctx_key = Some \<lparr>key_id = [], key_group = None, key_data = JStr ''/api''\<rparr>,
         ctx_data = None, ctx_id = None, ctx_timestamp = 0\<rparr> JNull)
   \<noteq> spec_getUserMessage
     (new_MutationError ''m''
        \<lparr>ctx_operation = Create,
         ctx_key = Some \<lparr>key_id = [], key_group = None, key_data = JStr ''/api''\<rparr>,
         ctx_data = None, ctx_id = None, ctx_timestamp = 0\<rparr> JNull)"
  by (simp add: getUserMessage_def spec_getUserMessage_def new_MutationError_def)

text \<open>
  C7, amended: for every \<open>MutationError\<close>, \<open>getUserMessage\<close> returns
  \<^verbatim>\<open>Failed to {verb} {resource}. Please try again.\<close> with the verb add, update or
  delete for create, update or delete, and the resource the key's \<open>id\<close> when the key
  is present and its \<open>id\<close> is not empty, and \<^verbatim>\<open>"resource"\<close> otherwise.
\<close>

theorem getUserMessage_format:
  "getUserMessage e =
     ''Failed to '' @ spec_userVerb (ctx_operation (err_context e)) @ '' ''
       @ (case ctx_key (err_context e) of
            None \<Rightarrow> ''resource''
          | Some k \<Rightarrow> if key_id k = [] then ''resource'' else key_id k)
       @ ''. Please try again.''"
  by (cases "ctx_operation (err_context e)")
     (simp_all add: getUserMessage_def split: option.split)

subsection \<open>The helper \<^verbatim>\<open>to\<close> never rejects\<close>

text \<open>
  C10: for every promise \<open>p\<close>, \<open>to p\<close> is never rejected; it is fulfilled with
  \<open>[v, null]\<close> when \<open>p\<close> is fulfilled with \<open>v\<close>, and with \<open>[null, e]\<close> when \<open>p\<close> is
  rejected with \<open>e\<close>.
\<close>

theorem to_never_rejects:
  "to p \<noteq> Rejected r
   \<and> to (Fulfilled v) = Fulfilled (v, JNull)
   \<and> to (Rejected e) = Fulfilled (JNull, e)"
  by (cases p) simp_all

subsection \<open>Decoding the legacy string form\<close>

lemma alnum_not_special:
  "alnum c \<Longrightarrow> c \<noteq> dquote \<and> c \<noteq> backslash \<and> c \<noteq> CHR '':'' \<and> c \<noteq> CHR '','' \<and> c \<noteq> CHR ''#''"
  by (auto simp: alnum_def dquote_def backslash_def Let_def)

lemma quotedSegment_alnum:
  "list_all alnum a \<Longrightarrow> quotedSegment (a @ dquote # rest) = Some a"
  by (induction a) (auto dest: alnum_not_special)

lemma unescapeString_alnum:
  "list_all alnum a \<Longrightarrow> unescapeString a = a"
  by (induction a rule: unescapeString.induct) (auto dest: alnum_not_special)

lemma startsWith_alnum_run:
  "list_all alnum a \<Longrightarrow> list_all alnum w \<Longrightarrow>
   \<not> startsWith (a @ dquote # rest) (w @ CHR '':'' # z)"
proof (induction w arbitrary: a)
  case Nil
  then show ?case by (cases a) (auto simp: dquote_def dest: alnum_not_special)
next
  case (Cons x w)
  then show ?case by (cases a) (auto dest: alnum_not_special)
qed

lemma js_match_skip_alnum:
  "list_all alnum a \<Longrightarrow> list_all alnum w \<Longrightarrow>
   js_match (w @ CHR '':'' # z) (a @ dquote # rest) = js_match (w @ CHR '':'' # z) (dquote # rest)"
proof (induction a)
  case Nil
  then show ?case by simp
next
  case (Cons c a)
  have "\<not> startsWith ((c # a) @ dquote # rest) (w @ CHR '':'' # z)"
    using Cons.prems by (intro startsWith_alnum_run) auto
  then have "matchHere (w @ CHR '':'' # z) (c # a @ dquote # rest) = None"
    by (simp add: matchHere_def)
  with Cons show ?case by simp
qed

lemma js_match_GROUP_skip:
  "list_all alnum a \<Longrightarrow>
   js_match GROUP_PATTERN (a @ dquote # rest) = js_match GROUP_PATTERN (dquote # rest)"
  using js_match_skip_alnum [of a "''group''" "[dquote]" rest]
  by (simp add: GROUP_PATTERN_def alnum_def)

lemma js_match_DATA_skip:
  "list_all alnum a \<Longrightarrow>
   js_match DATA_PATTERN (a @ dquote # rest) = js_match DATA_PATTERN (dquote # rest)"
  using js_match_skip_alnum [of a "''data''" "[dquote]" rest]
  by (simp add: DATA_PATTERN_def alnum_def)

lemma js_match_GROUP_step:
  "c \<noteq> CHR ''g'' \<Longrightarrow> js_match GROUP_PATTERN (c # cs) = js_match GROUP_PATTERN cs"
  by (simp add: GROUP_PATTERN_def matchHere_def)

lemma js_match_DATA_step:
  "c \<noteq> CHR ''d'' \<Longrightarrow> js_match DATA_PATTERN (c # cs) = js_match DATA_PATTERN cs"
  by (simp add: DATA_PATTERN_def matchHere_def)

lemma js_match_DATA_step_d:
  "js_match DATA_PATTERN (CHR ''d'' # CHR '':'' # cs) = js_match DATA_PATTERN (CHR '':'' # cs)"
  by (simp add: DATA_PATTERN_def matchHere_def)

lemma js_match_GROUP_nil: "js_match GROUP_PATTERN [] = None"
  by (simp add: GROUP_PATTERN_def matchHere_def)

lemma js_match_DATA_nil: "js_match DATA_PATTERN [] = None"
  by (simp add: DATA_PATTERN_def matchHere_def)

lemma js_match_GROUP_hit:
  "list_all alnum gs \<Longrightarrow>
   js_match GROUP_PATTERN (CHR ''g'' # CHR ''r'' # CHR ''o'' # CHR ''u'' # CHR ''p'' # CHR '':''
      # dquote # gs @ dquote # rest) = Some gs"
  by (simp add: GROUP_PATTERN_def matchHere_def quotedSegment_alnum)

lemma js_match_DATA_hit:
  "list_all alnum ds \<Longrightarrow>
   js_match DATA_PATTERN (CHR ''d'' # CHR ''a'' # CHR ''t'' # CHR ''a'' # CHR '':''
      # dquote # ds @ dquote # rest) = Some ds"
  by (simp add: DATA_PATTERN_def matchHere_def quotedSegment_alnum)

lemma js_match_ID_hit:
  "list_all alnum i \<Longrightarrow>
   js_match ID_PATTERN (CHR ''#'' # CHR ''i'' # CHR ''d'' # CHR '':''
      # dquote # i @ dquote # rest) = Some i"
  by (simp add: ID_PATTERN_def matchHere_def quotedSegment_alnum)

lemmas legacy_scan =
  js_match_GROUP_skip js_match_DATA_skip js_match_GROUP_step js_match_DATA_step
  js_match_DATA_step_d js_match_GROUP_nil js_match_DATA_nil js_match_GROUP_hit
  js_match_DATA_hit js_match_ID_hit unescapeString_alnum

lemma dquote_neq [simp]: "dquote \<noteq> CHR ''g''" "dquote \<noteq> CHR ''d''"
  by (simp_all add: dquote_def)

text \<open>
  C3: for every key whose \<open>id\<close>, \<open>group\<close> and \<open>data\<close> are strings of ASCII letters
  and digits, the legacy serialized form of the key decodes, through \<open>extractSWRKey\<close>,
  to an object with the same \<open>id\<close>, \<open>group\<close> and \<open>data\<close>; a segment that is absent
  decodes to \<^verbatim>\<open>undefined\<close>. (The strings need not be non-empty.)
\<close>

theorem legacy_roundtrip:
  assumes "list_all alnum i"
    and "case g of None \<Rightarrow> True | Some gs \<Rightarrow> list_all alnum gs"
    and "case d of None \<Rightarrow> True | Some ds \<Rightarrow> list_all alnum ds"
  shows "extractSWRKey JSON_parse r (JStr (spec_encodeLegacy i g d)) =
         Inr (Some (JObj r
           [(''id'', JStr i),
            (''group'', case g of None \<Rightarrow> JUndefined | Some gs \<Rightarrow> JStr gs),
            (''data'', case d of None \<Rightarrow> JUndefined | Some ds \<Rightarrow> JStr ds)]))"
proof -
  let ?key = "spec_encodeLegacy i g d"
  have "tryCurrentFormat r ?key =
        Some (JObj r
           [(''id'', JStr i),
            (''group'', case g of None \<Rightarrow> JUndefined | Some gs \<Rightarrow> JStr gs),
            (''data'', case d of None \<Rightarrow> JUndefined | Some ds \<Rightarrow> JStr ds)])"
  proof (cases g)
    case None
    note g = this
    show ?thesis
    proof (cases d)
      case None
      with g assms show ?thesis
        by (simp add: tryCurrentFormat_def spec_encodeLegacy_def legacy_scan del: js_match.simps)
    next
      case (Some ds)
      with g assms show ?thesis
        by (simp add: tryCurrentFormat_def spec_encodeLegacy_def legacy_scan del: js_match.simps)
    qed
  next
    case (Some gs)
    note g = this
    show ?thesis
    proof (cases d)
      case None
      with g assms show ?thesis
        by (simp add: tryCurrentFormat_def spec_encodeLegacy_def legacy_scan del: js_match.simps)
    next
      case (Some ds)
      with g assms show ?thesis
        by (simp add: tryCurrentFormat_def spec_encodeLegacy_def legacy_scan del: js_match.simps)
    qed
  qed
  then show ?thesis
    by (simp add: extractSWRKey_def)
qed

theorem legacy_roundtrip_witness:
  "extractSWRKey (\<lambda>s. Inl (Raw JNull)) 7
     (JStr (spec_encodeLegacy ''user1'' (Some ''users'') None)) =
   Inr (Some (JObj 7
     [(''id'', JStr ''user1''), (''group'', JStr ''users''), (''data'', JUndefined)]))"
  using legacy_roundtrip [of "''user1''" "Some ''users''" None "\<lambda>s. Inl (Raw JNull)" 7]
  by (simp add: alnum_def)

subsection \<open>Structured keys pass through\<close>

text \<open>
  C2: for every object \<open>k\<close> that has an \<open>id\<close> property, \<open>extractSWRKey\<close> returns
  \<open>k\<close> itself: the same address and the same contents.
\<close>

theorem extractSWRKey_passthrough:
  assumes "''id'' \<in> fst ` set ps"
  shows "extractSWRKey JSON_parse r (JObj a ps) = Inr (Some (JObj a ps))"
  using assms by (simp add: extractSWRKey_def)

theorem extractSWRKey_passthrough_witness:
  "extractSWRKey (\<lambda>s. Inl (Raw JNull)) 7
     (JObj 1 [(''id'', JStr ''user-1''), (''group'', JStr ''users''),
              (''data'', JObj 2 [(''name'', JStr ''John'')])]) =
   Inr (Some (JObj 1 [(''id'', JStr ''user-1''), (''group'', JStr ''users''),
              (''data'', JObj 2 [(''name'', JStr ''John'')])]))"
  using extractSWRKey_passthrough [of "[(''id'', JStr ''user-1''), (''group'', JStr ''users''),
              (''data'', JObj 2 [(''name'', JStr ''John'')])]" "\<lambda>s. Inl (Raw JNull)" 7 1]
  by simp

subsection \<open>Decoding never throws\<close>

lemma extractSWRKey_returns:
  "\<exists>res. extractSWRKey JSON_parse r cacheKey = Inr res"
  by (cases cacheKey) (simp_all add: extractSWRKey_def split: option.split)




subsection \<open>Key stabilisation\<close>

lemma strictEquals_truthy: "strictEquals a b \<Longrightarrow> truthy a = truthy b"
  by (cases a; cases b) simp_all

lemma typeof_object_truthy: "typeof a = ''object'' \<Longrightarrow> \<not> nullish a \<Longrightarrow> truthy a"
  by (cases a) simp_all

lemma deepEqual_truthy:
  assumes "deepEqual JSON_stringify a b" and "truthy a"
  shows "truthy b"
proof (cases "strictEquals a b")
  case True
  with assms(2) show ?thesis by (simp add: strictEquals_truthy)
next
  case False
  with assms(1) have "typeof b = ''object''" and "\<not> nullish b"
    by (auto simp: deepEqual_def split: if_splits)
  then show ?thesis by (rule typeof_object_truthy)
qed

lemma useStableKey_valid:
  assumes "\<forall>p. current = Some p \<longrightarrow> key_id (snd p) \<noteq> [] \<and> truthy (key_data (snd p))"
    and "useStableKey JSON_stringify fresh key current = Some q"
  shows "key_id (snd q) \<noteq> [] \<and> truthy (key_data (snd q))"
  using assms
  by (auto simp: useStableKey_def Let_def split: option.splits if_splits)

lemma useStableKey_null:
  "(useStableKey JSON_stringify fresh key current = None) =
   (key = None \<or> (\<exists>k. key = Some k \<and> (key_id k = [] \<or> \<not> truthy (key_data k))))"
  by (auto simp: useStableKey_def Let_def split: option.splits)

lemma useStableKey_reuse:
  assumes inv: "\<forall>p. current = Some p \<longrightarrow> key_id (snd p) \<noteq> [] \<and> truthy (key_data (snd p))"
    and fresh: "\<forall>p. current = Some p \<longrightarrow> fst p \<noteq> fresh"
  shows "(\<exists>p. current = Some p \<and> useStableKey JSON_stringify fresh key current = Some p) =
         (\<exists>p k. current = Some p \<and> key = Some k
            \<and> key_id (snd p) = key_id k \<and> key_group (snd p) = key_group k
            \<and> deepEqual JSON_stringify (key_data (snd p)) (key_data k))"
proof
  assume "\<exists>p. current = Some p \<and> useStableKey JSON_stringify fresh key current = Some p"
  then obtain p where p: "current = Some p"
    and r: "useStableKey JSON_stringify fresh key current = Some p" by blast
  from fresh p have "fst p \<noteq> fresh" by simp
  with p r show "\<exists>p k. current = Some p \<and> key = Some k
            \<and> key_id (snd p) = key_id k \<and> key_group (snd p) = key_group k
            \<and> deepEqual JSON_stringify (key_data (snd p)) (key_data k)"
    by (cases p) (auto simp: useStableKey_def Let_def split: option.splits if_splits)
next
  assume "\<exists>p k. current = Some p \<and> key = Some k
            \<and> key_id (snd p) = key_id k \<and> key_group (snd p) = key_group k
            \<and> deepEqual JSON_stringify (key_data (snd p)) (key_data k)"
  then obtain p k where p: "current = Some p" and k: "key = Some k"
    and eq: "key_id (snd p) = key_id k" "key_group (snd p) = key_group k"
    and de: "deepEqual JSON_stringify (key_data (snd p)) (key_data k)" by blast
  from inv p have v: "key_id (snd p) \<noteq> []" "truthy (key_data (snd p))" by simp_all
  from de v(2) have "truthy (key_data k)" by (rule deepEqual_truthy)
  with p k eq de v(1)
  show "\<exists>p. current = Some p \<and> useStableKey JSON_stringify fresh key current = Some p"
    by (simp add: useStableKey_def Let_def)
qed

lemma useStableKey_otherwise:
  assumes "useStableKey JSON_stringify fresh key current \<noteq> None"
    and "useStableKey JSON_stringify fresh key current \<noteq> current"
  shows "\<exists>k. key = Some k \<and> useStableKey JSON_stringify fresh key current =
           Some (fresh, \<lparr>key_id = key_id k, key_group = key_group k, key_data = key_data k\<rparr>)"
  using assms
  by (auto simp: useStableKey_def Let_def split: option.splits if_splits)

lemma deepEqual_stringify_throws:
  assumes "\<forall>v. \<exists>e. JSON_stringify v = Inl e"
  shows "deepEqual JSON_stringify a b = strictEquals a b"
proof -
  obtain e where "JSON_stringify a = Inl e" using assms by blast
  then show ?thesis
    by (cases a; cases b) (simp_all add: deepEqual_def)
qed

lemma deepEqual_jsonEqual:
  "deepEqual js_JSON_stringify a b = spec_jsonEqual a b"
  by (cases a; cases b)
     (auto simp: deepEqual_def spec_jsonEqual_def js_JSON_stringify_def split: option.splits)

lemma canonical_jsonEqual:
  assumes "spec_canonical a = a" and "spec_canonical b = b"
  shows "spec_jsonEqual a b = spec_deepEqual a b"
  using assms
  by (cases a; cases b) (auto simp: spec_jsonEqual_def spec_deepEqual_def)

text \<open>
  C4, as stated, fails: \<open>deepEqual\<close> compares the \<^verbatim>\<open>JSON.stringify\<close> texts, in which
  the properties come in the order each object lists them. Data that is deep-equal
  to the previous key's data but lists its properties in another order is taken for
  changed, and the hook returns a new object.
\<close>

theorem useStableKey_key_order_counterexample:
  "spec_deepEqual (JObj 5 [(''a'', JNum 1), (''b'', JNum 2)])
                  (JObj 6 [(''b'', JNum 2), (''a'', JNum 1)])
   \<and> useStableKey js_JSON_stringify 2
       (Some \<lparr>key_id = ''t'', key_group = None,
              key_data = JObj 6 [(''b'', JNum 2), (''a'', JNum 1)]\<rparr>)
       (Some (1, \<lparr>key_id = ''t'', key_group = None,
                  key_data = JObj 5 [(''a'', JNum 1), (''b'', JNum 2)]\<rparr>))
     = Some (2, \<lparr>key_id = ''t'', key_group = None,
                  key_data = JObj 6 [(''b'', JNum 2), (''a'', JNum 1)]\<rparr>)"
  by code_simp

text \<open>
  C4, amended: let the previous stabilised key be \<^verbatim>\<open>null\<close> or a key this hook returned
  before (its \<open>id\<close> and \<open>data\<close> are truthy), and let the engine allocate a new object
  at an address other than the previous key's. Then the stabiliser returns the
  previous object itself exactly when there is one, its \<open>id\<close> and \<open>group\<close> are
  strictly equal to the key's, and its \<open>data\<close> is strictly equal to the key's or both
  are non-null objects with the same \<^verbatim>\<open>JSON.stringify\<close> text; it returns \<^verbatim>\<open>null\<close>
  exactly when the key is \<^verbatim>\<open>null\<close> or its \<open>id\<close> or \<open>data\<close> is falsy; in every other
  case it returns a newly allocated object with the key's \<open>id\<close>, \<open>group\<close> and
  \<open>data\<close>. For data whose objects list their properties in sorted order, the
  comparison by JSON text is the specification's deep equality.
\<close>

theorem useStableKey_json_contract:
  assumes "\<forall>p. current = Some p \<longrightarrow> key_id (snd p) \<noteq> [] \<and> truthy (key_data (snd p))"
    and "\<forall>p. current = Some p \<longrightarrow> fst p \<noteq> fresh"
  shows "((\<exists>p. current = Some p \<and> useStableKey js_JSON_stringify fresh key current = Some p) =
          (\<exists>p k. current = Some p \<and> key = Some k
            \<and> key_id (snd p) = key_id k \<and> key_group (snd p) = key_group k
            \<and> spec_jsonEqual (key_data (snd p)) (key_data k)))
       \<and> ((useStableKey js_JSON_stringify fresh key current = None) =
          (key = None \<or> (\<exists>k. key = Some k \<and> (key_id k = [] \<or> \<not> truthy (key_data k)))))
       \<and> (useStableKey js_JSON_stringify fresh key current \<noteq> None
          \<and> useStableKey js_JSON_stringify fresh key current \<noteq> current
          \<longrightarrow> (\<exists>k. key = Some k \<and> useStableKey js_JSON_stringify fresh key current =
                Some (fresh, \<lparr>key_id = key_id k, key_group = key_group k,
                              key_data = key_data k\<rparr>)))
       \<and> (spec_canonical a = a \<and> spec_canonical b = b
          \<longrightarrow> spec_jsonEqual a b = spec_deepEqual a b)"
proof (intro conjI impI)
  show "(\<exists>p. current = Some p \<and> useStableKey js_JSON_stringify fresh key current = Some p) =
          (\<exists>p k. current = Some p \<and> key = Some k
            \<and> key_id (snd p) = key_id k \<and> key_group (snd p) = key_group k
            \<and> spec_jsonEqual (key_data (snd p)) (key_data k))"
    using useStableKey_reuse [OF assms, of js_JSON_stringify key]
    by (simp add: deepEqual_jsonEqual)
  show "(useStableKey js_JSON_stringify fresh key current = None) =
          (key = None \<or> (\<exists>k. key = Some k \<and> (key_id k = [] \<or> \<not> truthy (key_data k))))"
    by (rule useStableKey_null)
next
  assume "useStableKey js_JSON_stringify fresh key current \<noteq> None
          \<and> useStableKey js_JSON_stringify fresh key current \<noteq> current"
  then show "\<exists>k. key = Some k \<and> useStableKey js_JSON_stringify fresh key current =
                Some (fresh, \<lparr>key_id = key_id k, key_group = key_group k,
                              key_data = key_data k\<rparr>)"
    using useStableKey_otherwise [of js_JSON_stringify fresh key current] by simp
next
  assume "spec_canonical a = a \<and> spec_canonical b = b"
  then show "spec_jsonEqual a b = spec_deepEqual a b"
    by (simp add: canonical_jsonEqual)
qed

theorem useStableKey_json_contract_witness:
  "useStableKey js_JSON_stringify 2
     (Some \<lparr>key_id = ''t'', key_group = None, key_data = JObj 6 [(''u'', JNum 1)]\<rparr>)
     (Some (1, \<lparr>key_id = ''t'', key_group = None, key_data = JObj 5 [(''u'', JNum 1)]\<rparr>))
   = Some (1, \<lparr>key_id = ''t'', key_group = None, key_data = JObj 5 [(''u'', JNum 1)]\<rparr>)
   \<and> useStableKey js_JSON_stringify 2
     (Some \<lparr>key_id = ''t'', key_group = None, key_data = JObj 6 [(''u'', JNum 2)]\<rparr>)
     (Some (1, \<lparr>key_id = ''t'', key_group = None, key_data = JObj 5 [(''u'', JNum 1)]\<rparr>))
   = Some (2, \<lparr>key_id = ''t'', key_group = None, key_data = JObj 6 [(''u'', JNum 2)]\<rparr>)"
proof -
  let ?prev = "Some (1 :: ref, \<lparr>key_id = ''t'', key_group = None,
                               key_data = JObj 5 [(''u'', JNum 1)]\<rparr>)"
  let ?same = "Some \<lparr>key_id = ''t'', key_group = None, key_data = JObj 6 [(''u'', JNum 1)]\<rparr>"
  let ?other = "Some \<lparr>key_id = ''t'', key_group = None, key_data = JObj 6 [(''u'', JNum 2)]\<rparr>"
  have eq: "spec_jsonEqual (JObj 5 [(''u'', JNum 1)]) (JObj 6 [(''u'', JNum 1)])"
    by code_simp
  have neq: "\<not> spec_jsonEqual (JObj 5 [(''u'', JNum 1)]) (JObj 6 [(''u'', JNum 2)])"
    by code_simp
  have inv: "\<forall>p. ?prev = Some p \<longrightarrow> key_id (snd p) \<noteq> [] \<and> truthy (key_data (snd p))"
    by simp
  have fresh: "\<forall>p. ?prev = Some p \<longrightarrow> fst p \<noteq> (2 :: ref)"
    by simp
  note same = useStableKey_json_contract [OF inv fresh, of ?same]
  note other = useStableKey_json_contract [OF inv fresh, of ?other]
  from same eq have r1: "useStableKey js_JSON_stringify 2 ?same ?prev = ?prev"
    by simp
  from other neq have "useStableKey js_JSON_stringify 2 ?other ?prev \<noteq> ?prev"
    by auto
  moreover from other have "useStableKey js_JSON_stringify 2 ?other ?prev \<noteq> None"
    by simp
  ultimately have r2: "useStableKey js_JSON_stringify 2 ?other ?prev =
      Some (2, \<lparr>key_id = ''t'', key_group = None, key_data = JObj 6 [(''u'', JNum 2)]\<rparr>)"
    using other by auto
  from r1 r2 show ?thesis by simp
qed

subsection \<open>Revalidation defaults of the batch operations\<close>

lemma map_of_setProp:
  "map_of (setProp ps p v) k = (if k = p then Some v else map_of ps k)"
  by (induction ps p v rule: setProp.induct) auto

lemma map_of_spread:
  "map_of (spread base ps) k =
     (case map_of (rev ps) k of None \<Rightarrow> map_of base k | Some v \<Rightarrow> Some v)"
proof (induction base ps rule: spread.induct)
  case (1 base)
  then show ?case by simp
next
  case (2 base p v ps)
  then show ?case
    by (auto simp: map_of_setProp map_add_def split: option.splits)
qed

lemma map_of_rev_None: "k \<notin> fst ` set ps \<Longrightarrow> map_of (rev ps) k = None"
  by (simp add: map_of_eq_None_iff)

lemma mutatorOptions_default:
  assumes "''revalidate'' \<notin> fst ` set (ownProps options)"
  shows "map_of (mutatorOptions newData options) ''revalidate'' = Some (JBool (\<not> truthy newData))"
proof -
  have "optProp options ''revalidate'' = JUndefined"
    using assms by (cases options) (force simp: optProp_def dest: map_of_SomeD split: option.splits)+
  with assms show ?thesis
    by (simp add: mutatorOptions_def Let_def map_of_spread map_of_rev_None)
qed

lemma mutatorOptions_explicit:
  assumes "options = JObj r ps" and "distinct (map fst ps)"
    and "map_of ps ''revalidate'' = Some (JBool b)"
  shows "map_of (mutatorOptions newData options) ''revalidate'' = Some (JBool b)"
proof -
  from assms(2) have "distinct (map fst (rev ps))" by (simp add: rev_map [symmetric])
  with assms(3) have "map_of (rev ps) ''revalidate'' = Some (JBool b)"
    by (metis map_of_inject_set assms(2) set_rev)
  with assms(1) show ?thesis
    by (simp add: mutatorOptions_def Let_def map_of_spread)
qed

lemma batch_truthy_newData:
  assumes "truthy newData" and "''revalidate'' \<notin> fst ` set (ownProps options)"
  shows "call_data (mutateById_call JSON_parse fresh ids newData options) = Updater (\<lambda>current. newData)"
    and "\<exists>ps. call_opts (mutateById_call JSON_parse fresh ids newData options) = OptsObject ps
           \<and> map_of ps ''revalidate'' = Some (JBool False)"
    and "call_data (mutateByGroup_call JSON_parse fresh groups newData options) = Updater (\<lambda>current. newData)"
    and "\<exists>ps. call_opts (mutateByGroup_call JSON_parse fresh groups newData options) = OptsObject ps
           \<and> map_of ps ''revalidate'' = Some (JBool False)"
  using assms mutatorOptions_default [OF assms(2), of newData]
  by (simp_all add: mutateById_call_def mutateByGroup_call_def)

lemma batch_omitted_newData:
  assumes "''revalidate'' \<notin> fst ` set (ownProps options)"
  shows "call_data (mutateById_call JSON_parse fresh ids JUndefined options) = NoData"
    and "\<exists>ps. call_opts (mutateById_call JSON_parse fresh ids JUndefined options) = OptsObject ps
           \<and> map_of ps ''revalidate'' = Some (JBool True)"
    and "call_data (mutateByGroup_call JSON_parse fresh groups JUndefined options) = NoData"
    and "\<exists>ps. call_opts (mutateByGroup_call JSON_parse fresh groups JUndefined options) = OptsObject ps
           \<and> map_of ps ''revalidate'' = Some (JBool True)"
  using mutatorOptions_default [OF assms, of JUndefined]
  by (simp_all add: mutateById_call_def mutateByGroup_call_def)

lemma batch_explicit_revalidate:
  assumes "options = JObj r ps" and "distinct (map fst ps)"
    and "map_of ps ''revalidate'' = Some (JBool b)"
  shows "\<exists>qs. call_opts (mutateById_call JSON_parse fresh ids newData options) = OptsObject qs
           \<and> map_of qs ''revalidate'' = Some (JBool b)"
    and "\<exists>qs. call_opts (mutateByGroup_call JSON_parse fresh groups newData options) = OptsObject qs
           \<and> map_of qs ''revalidate'' = Some (JBool b)"
  using mutatorOptions_explicit [OF assms, of newData]
  by (simp_all add: mutateById_call_def mutateByGroup_call_def)

text \<open>
  C5 says that a call with a \<open>newData\<close> and no \<open>revalidate\<close> option passes a
  constant-returning updater and \<open>revalidate: false\<close>, that a call without \<open>newData\<close>
  passes no updater and \<open>revalidate: true\<close>, and that an explicit \<open>revalidate\<close> wins.
  The code does so for a truthy \<open>newData\<close> (\<open>batch_truthy_newData\<close>), for an omitted
  one (\<open>batch_omitted_newData\<close>) and for an explicit boolean \<open>revalidate\<close>
  (\<open>batch_explicit_revalidate\<close>). It tests \<^verbatim>\<open>newData ? ... : undefined\<close> and
  \<^verbatim>\<open>!newData\<close>, though, so a \<open>newData\<close> that is provided and falsy is treated as
  omitted: \<^verbatim>\<open>mutateById("counter", 0)\<close> and \<^verbatim>\<open>mutateByGroup("g", 0)\<close> call \<open>mutate\<close>
  with no updater and \<open>revalidate: true\<close>, where the functions' documentation ("If
  newData is provided, default revalidation is disabled") and the claim promise the
  updater and \<open>revalidate: false\<close>.
\<close>

theorem batch_falsy_newData_revalidates:
  "call_data (mutateById_call JSON_parse fresh (Single ''counter'') (JNum 0) JUndefined) = NoData
   \<and> call_opts (mutateById_call JSON_parse fresh (Single ''counter'') (JNum 0) JUndefined)
       = OptsObject [(''revalidate'', JBool True)]
   \<and> call_data (mutateByGroup_call JSON_parse fresh (Single ''g'') (JNum 0) JUndefined) = NoData
   \<and> call_opts (mutateByGroup_call JSON_parse fresh (Single ''g'') (JNum 0) JUndefined)
       = OptsObject [(''revalidate'', JBool True)]"
  by (simp add: mutateById_call_def mutateByGroup_call_def mutatorOptions_def optProp_def)

subsection \<open>What \<^verbatim>\<open>resetCache\<close> clears\<close>

text \<open>
  C6, as stated, fails for the preserved id \<^verbatim>\<open>""\<close>: the empty string is falsy, so
  \<^verbatim>\<open>resetCache("")\<close> preserves nothing and clears the entry whose decoded \<open>id\<close> is
  \<^verbatim>\<open>""\<close>.
\<close>

theorem resetCache_empty_string_counterexample:
  "call_filter (resetCache_call (\<lambda>s. Inl (Raw JNull)) 7 (KeyString []))
     (JObj 1 [(''id'', JStr [])])
   \<noteq> Inr (spec_cleared (\<lambda>s. Inl (Raw JNull)) 7 (KeyString []) (JObj 1 [(''id'', JStr [])]))"
  by (simp add: resetCache_call_def preservedList_def spec_cleared_def spec_preservedIds_def
        extractSWRKey_def)

lemma js_includes_Nil [simp]: "\<not> js_includes [] v"
  by (cases v) simp_all

lemma resetCache_filter:
  assumes "preservedKeys \<noteq> KeyString []"
  shows "call_filter (resetCache_call JSON_parse fresh preservedKeys) key =
         Inr (spec_cleared JSON_parse fresh preservedKeys key)"
proof -
  obtain res where res: "extractSWRKey JSON_parse fresh key = Inr res"
    using extractSWRKey_returns by blast
  with assms show ?thesis
    by (cases preservedKeys; cases res)
       (simp_all add: resetCache_call_def preservedList_def spec_cleared_def
          spec_preservedIds_def)
qed

text \<open>
  C6, amended: for every argument other than the empty string (a non-empty string, an
  array of strings, \<^verbatim>\<open>null\<close> or nothing), the filter \<^verbatim>\<open>resetCache\<close> passes to
  \<^verbatim>\<open>mutate\<close> selects exactly the entries that do not decode or whose decoded \<open>id\<close> is
  not among the preserved ids; with the empty string it selects every entry; and the
  call always passes \<^verbatim>\<open>undefined\<close> data and \<^verbatim>\<open>false\<close> for revalidation.
\<close>

theorem resetCache_clears:
  assumes "preservedKeys \<noteq> KeyString []"
  shows "call_filter (resetCache_call JSON_parse fresh preservedKeys) key =
           Inr (spec_cleared JSON_parse fresh preservedKeys key)
       \<and> call_filter (resetCache_call JSON_parse fresh (KeyString [])) key = Inr True
       \<and> call_data (resetCache_call JSON_parse fresh any) = NoData
       \<and> call_opts (resetCache_call JSON_parse fresh any) = OptsBool False"
  using resetCache_filter [OF assms]
  by (simp add: resetCache_call_def preservedList_def)

theorem resetCache_clears_witness:
  "call_filter (resetCache_call (\<lambda>s. Inl (Raw JNull)) 7 (KeyArray [''user-1'', ''user-2'']))
     (JObj 1 [(''id'', JStr ''user-3'')]) = Inr True
   \<and> call_filter (resetCache_call (\<lambda>s. Inl (Raw JNull)) 7 (KeyArray [''user-1'', ''user-2'']))
     (JObj 1 [(''id'', JStr ''user-1'')]) = Inr False"
  using resetCache_clears [of "KeyArray [''user-1'', ''user-2'']" "\<lambda>s. Inl (Raw JNull)" 7
          "JObj 1 [(''id'', JStr ''user-3'')]"]
        resetCache_clears [of "KeyArray [''user-1'', ''user-2'']" "\<lambda>s. Inl (Raw JNull)" 7
          "JObj 1 [(''id'', JStr ''user-1'')]"]
  by (simp add: spec_cleared_def spec_preservedIds_def extractSWRKey_def)

subsection \<open>Rollback of an optimistic delete\<close>

lemma createMutationError_fields [simp]:
  "err_name (createMutationError operation stableKey err additional now) = ''MutationError''"
  "err_originalError (createMutationError operation stableKey err additional now) = err"
  "ctx_operation (err_context (createMutationError operation stableKey err additional now))
     = operation"
  "ctx_key (err_context (createMutationError operation stableKey err additional now))
     = stableKey"
  by (simp_all add: createMutationError_def new_MutationError_def Let_def)




subsection \<open>What a failing call delivers\<close>













end
